theory Spec2Isabelle
  imports Complex_Main "HOL-Library.Sublist" "HOL-Library.Multiset"
begin

section \<open>WaSR-T training orchestration (\<^verbatim>\<open>wasr_t/train.py\<close>)\<close>

text \<open>
  The module wraps a segmentation network in a Lightning module. Python floats and the
  entries of float tensors are idealised as real numbers throughout: rounding, infinities
  and NaN are outside this development. Everything the module imports from elsewhere
  (the network, the two loss functions, the image resize) is a parameter of the
  definitions below.
\<close>

subsection \<open>Python exceptions and dictionaries\<close>

datatype py_error =
    AssertionError
  | KeyError string
  | TypeError
  | ZeroDivisionError
  | IndexError
  | ValueError

text \<open>\<^verbatim>\<open>d[k]\<close> on a dictionary: the value, or \<^verbatim>\<open>KeyError(k)\<close>.\<close>

definition getitem :: "(string \<rightharpoonup> 'v) \<Rightarrow> string \<Rightarrow> py_error + 'v" where
  "getitem d k = (case d k of None \<Rightarrow> Inl (KeyError k) | Some v \<Rightarrow> Inr v)"

subsection \<open>Module constants\<close>

definition NUM_EPOCHS :: int where "NUM_EPOCHS = 50"
definition LEARNING_RATE :: real where "LEARNING_RATE = 1 / 10 ^ 6"
definition MOMENTUM :: real where "MOMENTUM = 9 / 10"
definition WEIGHT_DECAY :: real where "WEIGHT_DECAY = 1 / 10 ^ 6"
definition LR_DECAY_POW :: real where "LR_DECAY_POW = 9 / 10"
definition FOCAL_LOSS_SCALE :: string where "FOCAL_LOSS_SCALE = ''labels''"
definition SL_METHOD :: string where "SL_METHOD = ''wasr''"

definition SL_LAMBDA_DEFAULTS :: "string \<rightharpoonup> real" where
  "SL_LAMBDA_DEFAULTS = [''wasr'' \<mapsto> 1 / 100, ''none'' \<mapsto> 1]"

subsection \<open>The argument namespace\<close>

text \<open>
  The ten attributes that \<^verbatim>\<open>add_argparse_args\<close> declares. A namespace may carry further
  attributes (the extension part of the record). \<^verbatim>\<open>separation_loss_lambda\<close> and
  \<^verbatim>\<open>separation_loss_clipping\<close> default to \<^verbatim>\<open>None\<close>.
\<close>

record hparams =
  learning_rate :: real
  momentum :: real
  epochs :: int
  lr_decay_pow :: real
  weight_decay :: real
  focal_loss_scale :: string
  separation_loss :: string
  separation_loss_lambda :: "real option"
  separation_loss_clipping :: "real option"
  separation_loss_sky :: bool

text \<open>
  \<^verbatim>\<open>parse_args\<close> mutates the namespace it is given and returns that same object. The model
  returns the outcome together with the state of the namespace after the call: on success
  the outcome holds the returned (updated) namespace.
\<close>

definition parse_args ::
  "'a hparams_scheme \<Rightarrow> (py_error + 'a hparams_scheme) \<times> 'a hparams_scheme" where
  "parse_args args =
     (if separation_loss args \<notin> dom SL_LAMBDA_DEFAULTS then (Inl AssertionError, args)
      else
        let args' =
          (if separation_loss_lambda args = None
           then args\<lparr>separation_loss_lambda := SL_LAMBDA_DEFAULTS (separation_loss args)\<rparr>
           else args)
        in (Inr args', args'))"

subsection \<open>Tensors\<close>

text \<open>
  A float tensor of shape \<open>(N, C, H, W)\<close> is its four sizes and its entries by index; the
  result of reducing dimension 1 is a tensor of shape \<open>(N, H, W)\<close>. Entries outside the
  shape play no role.
\<close>

record tensor =
  size0 :: nat
  size1 :: nat
  size2 :: nat
  size3 :: nat
  item :: "nat \<Rightarrow> nat \<Rightarrow> nat \<Rightarrow> nat \<Rightarrow> real"

record 'a tensor3 =
  dim0 :: nat
  dim1 :: nat
  dim2 :: nat
  elem :: "nat \<Rightarrow> nat \<Rightarrow> nat \<Rightarrow> 'a"

text \<open>The channel vector of one pixel.\<close>

definition channels :: "tensor \<Rightarrow> nat \<Rightarrow> nat \<Rightarrow> nat \<Rightarrow> real list" where
  "channels t b h w = map (\<lambda>c. item t b c h w) [0..<size1 t]"

text \<open>\<^verbatim>\<open>t.sum(1)\<close>: the sum over the channel dimension (0 over an empty one).\<close>

definition tensor_sum1 :: "tensor \<Rightarrow> real tensor3" where
  "tensor_sum1 t =
     \<lparr>dim0 = size0 t, dim1 = size2 t, dim2 = size3 t,
      elem = (\<lambda>b h w. sum_list (channels t b h w))\<rparr>"

text \<open>
  The index of the first maximal entry: \<open>argmax_from bi bv i xs\<close> scans \<open>xs\<close>, whose
  first entry has index \<open>i\<close>, with the best index \<open>bi\<close> and best value \<open>bv\<close> so far.
\<close>

fun argmax_from :: "nat \<Rightarrow> real \<Rightarrow> nat \<Rightarrow> real list \<Rightarrow> nat" where
  "argmax_from bi bv i [] = bi"
| "argmax_from bi bv i (x # xs) =
     (if bv < x then argmax_from i x (Suc i) xs else argmax_from bi bv (Suc i) xs)"

definition argmax_list :: "real list \<Rightarrow> nat" where
  "argmax_list xs = (case xs of [] \<Rightarrow> 0 | x # ys \<Rightarrow> argmax_from 0 x 1 ys)"

text \<open>
  \<^verbatim>\<open>t.argmax(1)\<close>: per pixel, the index of the first maximal channel. Reducing a dimension
  of size 0 raises \<^verbatim>\<open>IndexError\<close>.
\<close>

definition tensor_argmax1 :: "tensor \<Rightarrow> py_error + int tensor3" where
  "tensor_argmax1 t =
     (if size1 t = 0 then Inl IndexError
      else Inr \<lparr>dim0 = size0 t, dim1 = size2 t, dim2 = size3 t,
                elem = (\<lambda>b h w. int (argmax_list (channels t b h w)))\<rparr>)"

text \<open>
  Elementwise operations on tensors of one shape: \<^verbatim>\<open>t < s\<close> against a scalar, \<^verbatim>\<open>~m\<close> on a
  boolean tensor, \<^verbatim>\<open>t * m\<close> and \<^verbatim>\<open>k * m\<close> with a boolean tensor (\<^verbatim>\<open>True\<close> counts as 1,
  \<^verbatim>\<open>False\<close> as 0), and \<^verbatim>\<open>t + u\<close>.
\<close>

definition tensor_lt :: "real tensor3 \<Rightarrow> real \<Rightarrow> bool tensor3" where
  "tensor_lt t s = \<lparr>dim0 = dim0 t, dim1 = dim1 t, dim2 = dim2 t, elem = (\<lambda>b h w. elem t b h w < s)\<rparr>"

definition tensor_not :: "bool tensor3 \<Rightarrow> bool tensor3" where
  "tensor_not m = \<lparr>dim0 = dim0 m, dim1 = dim1 m, dim2 = dim2 m, elem = (\<lambda>b h w. \<not> elem m b h w)\<rparr>"

definition tensor_mul_bool :: "int tensor3 \<Rightarrow> bool tensor3 \<Rightarrow> int tensor3" where
  "tensor_mul_bool t m =
     \<lparr>dim0 = dim0 t, dim1 = dim1 t, dim2 = dim2 t,
      elem = (\<lambda>b h w. elem t b h w * (if elem m b h w then 1 else 0))\<rparr>"

definition scalar_mul_bool :: "int \<Rightarrow> bool tensor3 \<Rightarrow> int tensor3" where
  "scalar_mul_bool k m =
     \<lparr>dim0 = dim0 m, dim1 = dim1 m, dim2 = dim2 m,
      elem = (\<lambda>b h w. k * (if elem m b h w then 1 else 0))\<rparr>"

definition tensor_add :: "int tensor3 \<Rightarrow> int tensor3 \<Rightarrow> int tensor3" where
  "tensor_add t u =
     \<lparr>dim0 = dim0 t, dim1 = dim1 t, dim2 = dim2 t, elem = (\<lambda>b h w. elem t b h w + elem u b h w)\<rparr>"

subsection \<open>External collaborators\<close>

text \<open>
  The wrapped network: calling it yields a dictionary of tensors, \<^verbatim>\<open>named_parameters()\<close>
  a sequence of (name, parameter) pairs and \<^verbatim>\<open>state_dict()\<close> its weights. The call is taken
  to be a function of its input.
\<close>

record ('x, 'p, 'sd) net =
  call :: "'x \<Rightarrow> (string \<rightharpoonup> tensor)"
  named_parameters :: "(string \<times> 'p) list"
  state_dict :: 'sd

datatype interpolation = NEAREST | BILINEAR | BICUBIC

text \<open>
  The functions imported from \<^verbatim>\<open>.loss\<close> and from torchvision. Their code is not part of
  this file; they are parameters.
\<close>

record externals =
  focal_loss :: "tensor \<Rightarrow> tensor \<Rightarrow> string \<Rightarrow> real"
  water_obstacle_separation_loss :: "tensor \<Rightarrow> tensor \<Rightarrow> real option \<Rightarrow> bool \<Rightarrow> real"
  resize :: "tensor \<Rightarrow> nat \<times> nat \<Rightarrow> interpolation \<Rightarrow> tensor"

text \<open>
  A metric object from \<^verbatim>\<open>.metrics\<close> is what it was constructed as and the sequence of
  (predictions, targets) pairs it has been called with.
\<close>

datatype metric_kind = PixelAccuracy nat | ClassIoU nat nat

record metric =
  kind :: metric_kind
  seen :: "(int tensor3 \<times> int tensor3) list"

definition new_metric :: "metric_kind \<Rightarrow> metric" where
  "new_metric k = \<lparr>kind = k, seen = []\<rparr>"

definition metric_call :: "metric \<Rightarrow> int tensor3 \<Rightarrow> int tensor3 \<Rightarrow> metric" where
  "metric_call m preds target = m\<lparr>seen := seen m @ [(preds, target)]\<rparr>"

datatype log_value = LogFloat real | LogMetric metric_kind

subsection \<open>The Lightning module\<close>

text \<open>
  \<^verbatim>\<open>__init__\<close> copies the ten hyper-parameters from the namespace attribute by attribute, so
  a \<^verbatim>\<open>LitModel\<close> is those plus the network, the class count, the four validation metrics
  and what has been passed to \<^verbatim>\<open>self.log\<close> so far.
\<close>

record ('x, 'p, 'sd) lit_model = hparams +
  model :: "('x, 'p, 'sd) net"
  num_classes :: nat
  val_accuracy :: metric
  val_iou_0 :: metric
  val_iou_1 :: metric
  val_iou_2 :: metric
  logged :: "(string \<times> log_value) list"

definition LitModel_init ::
  "('x, 'p, 'sd) net \<Rightarrow> nat \<Rightarrow> 'a hparams_scheme \<Rightarrow> ('x, 'p, 'sd) lit_model" where
  "LitModel_init mdl n args =
     \<lparr>learning_rate = learning_rate args,
      momentum = momentum args,
      epochs = epochs args,
      lr_decay_pow = lr_decay_pow args,
      weight_decay = weight_decay args,
      focal_loss_scale = focal_loss_scale args,
      separation_loss = separation_loss args,
      separation_loss_lambda = separation_loss_lambda args,
      separation_loss_clipping = separation_loss_clipping args,
      separation_loss_sky = separation_loss_sky args,
      model = mdl,
      num_classes = n,
      val_accuracy = new_metric (PixelAccuracy n),
      val_iou_0 = new_metric (ClassIoU 0 n),
      val_iou_1 = new_metric (ClassIoU 1 n),
      val_iou_2 = new_metric (ClassIoU 2 n),
      logged = []\<rparr>"

definition self_log ::
  "('x, 'p, 'sd) lit_model \<Rightarrow> string \<Rightarrow> log_value \<Rightarrow> ('x, 'p, 'sd) lit_model" where
  "self_log self name v = self\<lparr>logged := logged self @ [(name, v)]\<rparr>"

definition forward :: "('x, 'p, 'sd) lit_model \<Rightarrow> 'x \<Rightarrow> py_error + tensor" where
  "forward self x = (let output = call (model self) x in getitem output ''out'')"

text \<open>
  \<^verbatim>\<open>training_step\<close> and \<^verbatim>\<open>validation_step\<close> return their outcome together with the module
  after the call (its log, its metrics). An exception leaves the module as it was when the
  exception was raised.
\<close>

definition training_step ::
  "externals \<Rightarrow> ('x, 'p, 'sd) lit_model \<Rightarrow> 'x \<times> (string \<rightharpoonup> tensor) \<Rightarrow>
     (py_error + real) \<times> ('x, 'p, 'sd) lit_model" where
  "training_step ext self batch =
     (let (features, labels) = batch;
          out = call (model self) features
      in case getitem out ''out'' of Inl e \<Rightarrow> (Inl e, self) | Inr out_main \<Rightarrow>
        (case getitem labels ''segmentation'' of Inl e \<Rightarrow> (Inl e, self) | Inr seg \<Rightarrow>
          (let fl = focal_loss ext out_main seg (focal_loss_scale self)
           in case (if separation_loss self = ''wasr''
                    then (case getitem out ''aux'' of Inl e \<Rightarrow> Inl e
                          | Inr out_aux \<Rightarrow>
                              Inr (water_obstacle_separation_loss ext out_aux seg
                                     (separation_loss_clipping self) (separation_loss_sky self)))
                    else Inr 0)
              of Inl e \<Rightarrow> (Inl e, self) | Inr sep_loss \<Rightarrow>
                (case separation_loss_lambda self of None \<Rightarrow> (Inl TypeError, self)
                 | Some lam \<Rightarrow>
                    (let loss = fl + lam * sep_loss;
                         self1 = self_log self ''train/loss'' (LogFloat loss);
                         self2 = self_log self1 ''train/focal_loss'' (LogFloat fl);
                         self3 = self_log self2 ''train/separation_loss'' (LogFloat sep_loss)
                     in (Inr loss, self3))))))"

record val_output =
  loss :: real
  preds :: "int tensor3"

text \<open>Lines 133 to 135: hard labels from soft ones, 4 being the ignore class.\<close>

definition hard_labels :: "tensor \<Rightarrow> py_error + int tensor3" where
  "hard_labels seg =
     (case tensor_argmax1 seg of Inl e \<Rightarrow> Inl e | Inr labels_hard \<Rightarrow>
        let ignore_mask = tensor_lt (tensor_sum1 seg) (9 / 10)
        in Inr (tensor_add (tensor_mul_bool labels_hard (tensor_not ignore_mask))
                           (scalar_mul_bool 4 ignore_mask)))"

definition validation_step ::
  "externals \<Rightarrow> ('x, 'p, 'sd) lit_model \<Rightarrow> 'x \<times> (string \<rightharpoonup> tensor) \<Rightarrow>
     (py_error + val_output) \<times> ('x, 'p, 'sd) lit_model" where
  "validation_step ext self batch =
     (let (features, labels) = batch;
          out = call (model self) features
      in case getitem out ''out'' of Inl e \<Rightarrow> (Inl e, self) | Inr out_main \<Rightarrow>
        (case getitem labels ''segmentation'' of Inl e \<Rightarrow> (Inl e, self) | Inr seg \<Rightarrow>
          (let l = focal_loss ext out_main seg (focal_loss_scale self);
               self1 = self_log self ''val/loss'' (LogFloat l);
               labels_size = (size2 seg, size3 seg);
               logits = resize ext out_main labels_size BILINEAR
           in case tensor_argmax1 logits of Inl e \<Rightarrow> (Inl e, self1) | Inr ps \<Rightarrow>
             (case hard_labels seg of Inl e \<Rightarrow> (Inl e, self1) | Inr labels_hard \<Rightarrow>
               (let self2 = self1\<lparr>val_accuracy := metric_call (val_accuracy self1) ps labels_hard\<rparr>;
                    self3 = self2\<lparr>val_iou_0 := metric_call (val_iou_0 self2) ps labels_hard\<rparr>;
                    self4 = self3\<lparr>val_iou_1 := metric_call (val_iou_1 self3) ps labels_hard\<rparr>;
                    self5 = self4\<lparr>val_iou_2 := metric_call (val_iou_2 self4) ps labels_hard\<rparr>;
                    self6 = self_log self5 ''val/accuracy'' (LogMetric (kind (val_accuracy self5)));
                    self7 = self_log self6 ''val/iou/obstacle'' (LogMetric (kind (val_iou_0 self6)));
                    self8 = self_log self7 ''val/iou/water'' (LogMetric (kind (val_iou_1 self7)));
                    self9 = self_log self8 ''val/iou/sky'' (LogMetric (kind (val_iou_2 self8)))
                in (Inr \<lparr>loss = l, preds = ps\<rparr>, self9))))))"

subsection \<open>Optimizer and scheduler\<close>

text \<open>\<^verbatim>\<open>s.startswith(p)\<close> and \<^verbatim>\<open>sub in s\<close> on strings.\<close>

fun startswith :: "string \<Rightarrow> string \<Rightarrow> bool" where
  "startswith s [] = True"
| "startswith [] (p # ps) = False"
| "startswith (c # cs) (p # ps) = (c = p \<and> startswith cs ps)"

fun str_contains :: "string \<Rightarrow> string \<Rightarrow> bool" where
  "str_contains [] sub = (sub = [])"
| "str_contains (c # cs) sub = (startswith (c # cs) sub \<or> str_contains cs sub)"

text \<open>The loop over \<^verbatim>\<open>named_parameters()\<close>, with the three lists it appends to.\<close>

fun group_parameters ::
  "(string \<times> 'p) list \<Rightarrow> 'p list \<times> 'p list \<times> 'p list \<Rightarrow> 'p list \<times> 'p list \<times> 'p list" where
  "group_parameters [] acc = acc"
| "group_parameters ((name, parameter) # rest)
     (encoder_parameters, decoder_w_parameters, decoder_b_parameters) =
     (if startswith name ''backbone''
      then group_parameters rest
             (encoder_parameters @ [parameter], decoder_w_parameters, decoder_b_parameters)
      else if str_contains name ''weight''
      then group_parameters rest
             (encoder_parameters, decoder_w_parameters @ [parameter], decoder_b_parameters)
      else group_parameters rest
             (encoder_parameters, decoder_w_parameters, decoder_b_parameters @ [parameter]))"

text \<open>
  A Python number that \<^verbatim>\<open>**\<close> on floats can return: a float, or a complex number when the
  base is negative and the exponent is not an integer.
\<close>

datatype py_number = PyFloat real | PyComplex complex

text \<open>
  \<^verbatim>\<open>iv ** iw\<close> on floats, by the cases of CPython's \<^verbatim>\<open>float_pow\<close>: any base to the power 0
  is 1; 0 to a negative power raises; a negative base to a non-integer power goes to
  complex exponentiation (modulus \<open>|iv| ** iw\<close>, phase \<open>\<pi> * iw\<close>); a negative base to
  an integer power is computed on \<open>|iv|\<close> and negated for an odd exponent.
\<close>

definition py_float_pow :: "real \<Rightarrow> real \<Rightarrow> py_error + py_number" where
  "py_float_pow iv iw =
     (if iw = 0 then Inr (PyFloat 1)
      else if iv = 0 then (if iw < 0 then Inl ZeroDivisionError else Inr (PyFloat 0))
      else if iv < 0 then
        (if iw \<noteq> of_int \<lfloor>iw\<rfloor>
         then let len = \<bar>iv\<bar> powr iw; phase = pi * iw
              in Inr (PyComplex (Complex (len * cos phase) (len * sin phase)))
         else if odd \<lfloor>iw\<rfloor> then Inr (PyFloat (- (\<bar>iv\<bar> powr iw)))
         else Inr (PyFloat (\<bar>iv\<bar> powr iw)))
      else Inr (PyFloat (iv powr iw)))"

text \<open>
  \<^verbatim>\<open>lr_fn = lambda epoch: (1 - epoch/self.epochs) ** self.lr_decay_pow\<close>, with an integer
  \<^verbatim>\<open>epoch\<close> and the integer \<^verbatim>\<open>self.epochs\<close>: true division, which raises on a zero divisor.
\<close>

definition lr_fn :: "('x, 'p, 'sd) lit_model \<Rightarrow> int \<Rightarrow> py_error + py_number" where
  "lr_fn self epoch =
     (if epochs self = 0 then Inl ZeroDivisionError
      else py_float_pow (1 - of_int epoch / of_int (epochs self)) (lr_decay_pow self))"

text \<open>The optimizer and scheduler objects that \<^verbatim>\<open>configure_optimizers\<close> constructs.\<close>

record 'p param_group =
  params :: "'p list"
  lr :: real

record 'p rmsprop =
  param_groups :: "'p param_group list"
  opt_momentum :: real
  opt_alpha :: real
  opt_weight_decay :: real

record 'p lambda_lr =
  optimizer :: "'p rmsprop"
  lr_lambda :: "int \<Rightarrow> py_error + py_number"

text \<open>
  No parameter of a group occurs in an earlier group (\<open>earlier\<close> collects the earlier
  groups' parameters).
\<close>

fun groups_disjoint :: "'p list \<Rightarrow> 'p param_group list \<Rightarrow> bool" where
  "groups_disjoint earlier [] = True"
| "groups_disjoint earlier (g # gs) =
     (set (params g) \<inter> set earlier = {} \<and> groups_disjoint (earlier @ params g) gs)"

text \<open>
  \<^verbatim>\<open>torch.optim.RMSprop(groups, momentum=..., alpha=..., weight_decay=...)\<close>: the constructor
  raises \<^verbatim>\<open>ValueError\<close> on a negative momentum, weight decay or alpha, on an empty list of
  groups, and on a parameter that appears in more than one group.
\<close>

definition RMSprop ::
  "'p param_group list \<Rightarrow> real \<Rightarrow> real \<Rightarrow> real \<Rightarrow> py_error + 'p rmsprop" where
  "RMSprop groups mom alph wd =
     (if mom < 0 \<or> wd < 0 \<or> alph < 0 then Inl ValueError
      else if groups = [] then Inl ValueError
      else if groups_disjoint [] groups
      then Inr \<lparr>param_groups = groups, opt_momentum = mom, opt_alpha = alph,
                opt_weight_decay = wd\<rparr>
      else Inl ValueError)"

text \<open>
  \<^verbatim>\<open>LambdaLR(optimizer, lr_lambda)\<close>: the constructor takes the initial step, which calls
  \<^verbatim>\<open>lr_lambda(0)\<close>; an exception raised by that call leaves the constructor.
\<close>

definition LambdaLR ::
  "'p rmsprop \<Rightarrow> (int \<Rightarrow> py_error + py_number) \<Rightarrow> py_error + 'p lambda_lr" where
  "LambdaLR opt f =
     (case f 0 of Inl e \<Rightarrow> Inl e | Inr factor \<Rightarrow> Inr \<lparr>optimizer = opt, lr_lambda = f\<rparr>)"

definition configure_optimizers ::
  "('x, 'p, 'sd) lit_model \<Rightarrow> py_error + 'p rmsprop list \<times> 'p lambda_lr list" where
  "configure_optimizers self =
     (let (encoder_parameters, decoder_w_parameters, decoder_b_parameters) =
            group_parameters (named_parameters (model self)) ([], [], [])
      in case RMSprop
                [\<lparr>params = encoder_parameters, lr = learning_rate self\<rparr>,
                 \<lparr>params = decoder_w_parameters, lr = learning_rate self * 10\<rparr>,
                 \<lparr>params = decoder_b_parameters, lr = learning_rate self * 20\<rparr>]
                (momentum self) (9 / 10) (weight_decay self)
         of Inl e \<Rightarrow> Inl e
          | Inr opt \<Rightarrow>
             (case LambdaLR opt (lr_fn self) of Inl e \<Rightarrow> Inl e
              | Inr scheduler \<Rightarrow> Inr ([opt], [scheduler])))"

subsection \<open>Checkpoint hook\<close>

text \<open>
  A checkpoint dictionary holds entries of many kinds; the one this hook writes is a
  state dictionary. The hook mutates the dictionary and returns nothing: the model returns
  the module and the dictionary after the call.
\<close>

datatype ('sd, 'o) checkpoint_value = StateDict 'sd | OtherEntry 'o

definition on_save_checkpoint ::
  "('x, 'p, 'sd) lit_model \<Rightarrow> (string \<rightharpoonup> ('sd, 'o) checkpoint_value) \<Rightarrow>
     ('x, 'p, 'sd) lit_model \<times> (string \<rightharpoonup> ('sd, 'o) checkpoint_value)" where
  "on_save_checkpoint self checkpoint =
     (self, checkpoint(''model'' \<mapsto> StateDict (state_dict (model self))))"

subsection \<open>Concrete inputs\<close>

text \<open>The namespace \<^verbatim>\<open>add_argparse_args\<close> yields when no option is given.\<close>

definition default_args :: hparams where
  "default_args =
     \<lparr>learning_rate = LEARNING_RATE, momentum = MOMENTUM, epochs = NUM_EPOCHS,
      lr_decay_pow = LR_DECAY_POW, weight_decay = WEIGHT_DECAY,
      focal_loss_scale = FOCAL_LOSS_SCALE, separation_loss = SL_METHOD,
      separation_loss_lambda = None, separation_loss_clipping = None,
      separation_loss_sky = False\<rparr>"

text \<open>
  A one-image, three-channel, two-pixel soft label: the first pixel is water with total
  weight 1, the second has total weight 0.6.
\<close>

definition example_labels :: tensor where
  "example_labels =
     \<lparr>size0 = 1, size1 = 3, size2 = 1, size3 = 2,
      item = (\<lambda>b c h w.
        if w = 0 then (if c = 1 then 8 / 10 else 1 / 10)
        else (if c = 0 then 2 / 10 else if c = 1 then 3 / 10 else 1 / 10))\<rparr>"

definition example_net :: "(unit, nat, nat) net" where
  "example_net =
     \<lparr>call = (\<lambda>x. [''out'' \<mapsto> example_labels, ''aux'' \<mapsto> example_labels]),
      named_parameters =
        [(''backbone.conv1.weight'', 0), (''decoder.aspp.weight'', 1),
         (''decoder.aspp.bias'', 2), (''backbone.bn1.bias'', 3)],
      state_dict = 7\<rparr>"

definition example_ext :: externals where
  "example_ext =
     \<lparr>focal_loss = (\<lambda>logits target scale. 2),
      water_obstacle_separation_loss = (\<lambda>features target clipping sky. 3),
      resize = (\<lambda>t sz mode. t\<lparr>size2 := fst sz, size3 := snd sz\<rparr>)\<rparr>"

definition example_model :: "(unit, nat, nat) lit_model" where
  "example_model = LitModel_init example_net 3 (snd (parse_args default_args))"

section \<open>Properties\<close>

subsection \<open>Auxiliary facts\<close>

lemma dom_SL_LAMBDA_DEFAULTS: "dom SL_LAMBDA_DEFAULTS = {''wasr'', ''none''}"
  by (auto simp: SL_LAMBDA_DEFAULTS_def)

lemma model_example_model: "model example_model = example_net"
  by (simp add: example_model_def LitModel_init_def)

lemma hparams_example_model:
  "epochs example_model = 50" "lr_decay_pow example_model = 9 / 10"
  "separation_loss example_model = ''wasr''"
  "separation_loss_lambda example_model = Some (1 / 100)"
  "momentum example_model = 9 / 10" "weight_decay example_model = 1 / 10 ^ 6"
  by (simp_all add: example_model_def LitModel_init_def parse_args_def default_args_def
      SL_METHOD_def SL_LAMBDA_DEFAULTS_def NUM_EPOCHS_def LR_DECAY_POW_def MOMENTUM_def
      WEIGHT_DECAY_def Let_def)

text \<open>The two string tests agree with the library's prefix and contiguous-sublist relations.\<close>

lemma startswith_prefix: "startswith s p \<longleftrightarrow> prefix p s"
  by (induction s p rule: startswith.induct) auto

lemma str_contains_sublist: "str_contains s sub \<longleftrightarrow> sublist sub s"
  by (induction s sub rule: str_contains.induct) (auto simp: startswith_prefix sublist_Cons_right)

subsection \<open>\<^verbatim>\<open>parse_args\<close>\<close>

text \<open>
  C8: \<^verbatim>\<open>parse_args\<close> fails, with an assertion error, exactly when \<^verbatim>\<open>args.separation_loss\<close> is
  neither \<^verbatim>\<open>'wasr'\<close> nor \<^verbatim>\<open>'none'\<close>; it fails in no other way; and when it fails the
  namespace is left as it was.
\<close>

theorem parse_args_fails_iff:
  "(fst (parse_args args) = Inl AssertionError \<longleftrightarrow>
      separation_loss args \<noteq> ''wasr'' \<and> separation_loss args \<noteq> ''none'') \<and>
   (isl (fst (parse_args args)) \<longleftrightarrow> fst (parse_args args) = Inl AssertionError) \<and>
   (isl (fst (parse_args args)) \<longrightarrow> snd (parse_args args) = args)"
  by (auto simp: parse_args_def dom_SL_LAMBDA_DEFAULTS Let_def)

theorem parse_args_fails_iff_witness:
  "isl (fst (parse_args (default_args\<lparr>separation_loss := ''slr''\<rparr>))) \<and>
   snd (parse_args (default_args\<lparr>separation_loss := ''slr''\<rparr>)) =
     default_args\<lparr>separation_loss := ''slr''\<rparr>"
proof -
  have "separation_loss (default_args\<lparr>separation_loss := ''slr''\<rparr>) \<noteq> ''wasr'' \<and>
        separation_loss (default_args\<lparr>separation_loss := ''slr''\<rparr>) \<noteq> ''none''"
    by simp
  with parse_args_fails_iff [of "default_args\<lparr>separation_loss := ''slr''\<rparr>"]
  show ?thesis by blast
qed

text \<open>
  C9: when \<^verbatim>\<open>parse_args\<close> succeeds, the returned namespace is the mutated argument and
  differs from the original in at most \<^verbatim>\<open>separation_loss_lambda\<close>: a missing value becomes
  0.01 for \<^verbatim>\<open>'wasr'\<close> and 1.0 for \<^verbatim>\<open>'none'\<close>, a given value stays, every other attribute
  is unchanged, and a second call changes nothing.
\<close>

theorem parse_args_success:
  assumes "fst (parse_args args) = Inr args'"
  shows "snd (parse_args args) = args' \<and>
         args' = args\<lparr>separation_loss_lambda := separation_loss_lambda args'\<rparr> \<and>
         (separation_loss_lambda args = None \<longrightarrow> separation_loss args = ''wasr'' \<longrightarrow>
            separation_loss_lambda args' = Some (1 / 100)) \<and>
         (separation_loss_lambda args = None \<longrightarrow> separation_loss args = ''none'' \<longrightarrow>
            separation_loss_lambda args' = Some 1) \<and>
         (separation_loss_lambda args \<noteq> None \<longrightarrow> args' = args) \<and>
         parse_args args' = (Inr args', args')"
  using assms
  by (auto simp: parse_args_def dom_SL_LAMBDA_DEFAULTS Let_def SL_LAMBDA_DEFAULTS_def
      split: if_splits)

theorem parse_args_success_witness:
  "fst (parse_args default_args) = Inr (default_args\<lparr>separation_loss_lambda := Some (1 / 100)\<rparr>) \<and>
   snd (parse_args default_args) = default_args\<lparr>separation_loss_lambda := Some (1 / 100)\<rparr> \<and>
   parse_args (default_args\<lparr>separation_loss_lambda := Some (1 / 100)\<rparr>) =
     (Inr (default_args\<lparr>separation_loss_lambda := Some (1 / 100)\<rparr>),
      default_args\<lparr>separation_loss_lambda := Some (1 / 100)\<rparr>)"
proof -
  have h: "fst (parse_args default_args) =
             Inr (default_args\<lparr>separation_loss_lambda := Some (1 / 100)\<rparr>)"
    by (simp add: parse_args_def default_args_def SL_METHOD_def SL_LAMBDA_DEFAULTS_def Let_def)
  from parse_args_success [OF h] h show ?thesis by blast
qed

subsection \<open>\<^verbatim>\<open>forward\<close> and \<^verbatim>\<open>on_save_checkpoint\<close>\<close>

text \<open>
  C6: \<^verbatim>\<open>forward(x)\<close> is the \<^verbatim>\<open>'out'\<close> entry of the network's output dictionary: the entry
  when there is one, and the dictionary's \<^verbatim>\<open>KeyError\<close> when there is none.
\<close>

theorem forward_returns_out:
  "forward self x = getitem (call (model self) x) ''out'' \<and>
   (\<forall>t. call (model self) x ''out'' = Some t \<longrightarrow> forward self x = Inr t) \<and>
   (call (model self) x ''out'' = None \<longrightarrow> forward self x = Inl (KeyError ''out''))"
  by (simp add: forward_def getitem_def)

theorem forward_returns_out_witness:
  "call (model example_model) () ''out'' = Some example_labels \<and>
   forward example_model () = Inr example_labels"
proof -
  have h: "call (model example_model) () ''out'' = Some example_labels"
    by (simp add: model_example_model example_net_def)
  with forward_returns_out [of example_model "()"] show ?thesis by blast
qed

text \<open>
  C7: \<^verbatim>\<open>on_save_checkpoint\<close> sets the checkpoint's \<^verbatim>\<open>'model'\<close> entry to the network's state
  dictionary, leaves every other entry as it was, and leaves the module unchanged.
\<close>

theorem on_save_checkpoint_frame:
  assumes "on_save_checkpoint self checkpoint = (self', checkpoint')"
  shows "checkpoint' ''model'' = Some (StateDict (state_dict (model self))) \<and>
         (\<forall>k. k \<noteq> ''model'' \<longrightarrow> checkpoint' k = checkpoint k) \<and>
         self' = self"
  using assms by (auto simp: on_save_checkpoint_def)

theorem on_save_checkpoint_frame_witness:
  "snd (on_save_checkpoint example_model [''epoch'' \<mapsto> OtherEntry (3::nat)]) ''model'' =
     Some (StateDict 7) \<and>
   snd (on_save_checkpoint example_model [''epoch'' \<mapsto> OtherEntry (3::nat)]) ''epoch'' =
     Some (OtherEntry 3) \<and>
   fst (on_save_checkpoint example_model [''epoch'' \<mapsto> OtherEntry (3::nat)]) = example_model"
proof -
  have ne: "''epoch'' \<noteq> ''model''" by simp
  have sd: "state_dict (model example_model) = 7"
    by (simp add: model_example_model example_net_def)
  from on_save_checkpoint_frame [OF prod.collapse [symmetric],
      of example_model "[''epoch'' \<mapsto> OtherEntry (3::nat)]"] ne sd
  show ?thesis by simp
qed

subsection \<open>Learning-rate schedule\<close>

text \<open>
  On a base in \<open>[0, 1]\<close> and an exponent that is not negative, \<^verbatim>\<open>**\<close> returns a float in
  \<open>[0, 1]\<close> and is monotone in the base; on a negative base and a non-integer exponent it
  returns a complex number that is not real.
\<close>

lemma py_float_pow_unit:
  assumes "0 \<le> x" "x \<le> 1" "0 \<le> p"
  shows "\<exists>v. py_float_pow x p = Inr (PyFloat v) \<and> 0 \<le> v \<and> v \<le> 1"
proof (cases "p = 0 \<or> x = 0")
  case True
  with assms show ?thesis by (auto simp: py_float_pow_def)
next
  case False
  with assms have "0 < x" "0 < p" by auto
  then have "py_float_pow x p = Inr (PyFloat (x powr p))"
    by (simp add: py_float_pow_def)
  moreover have "x powr p \<le> 1"
    using powr_mono2 [of p x 1] assms by simp
  ultimately show ?thesis by simp
qed

lemma py_float_pow_mono:
  assumes "0 \<le> x" "x \<le> y" "0 \<le> p"
  shows "\<exists>v1 v2. py_float_pow y p = Inr (PyFloat v1) \<and> py_float_pow x p = Inr (PyFloat v2) \<and> v2 \<le> v1"
proof (cases "p = 0")
  case True
  then show ?thesis by (simp add: py_float_pow_def)
next
  case False
  with assms have p: "0 < p" by simp
  show ?thesis
  proof (cases "x = 0")
    case True
    with assms p show ?thesis by (auto simp: py_float_pow_def)
  next
    case False
    with assms have "0 < x" "0 < y" by auto
    moreover have "x powr p \<le> y powr p"
      using assms by (intro powr_mono2) auto
    ultimately show ?thesis using p by (simp add: py_float_pow_def)
  qed
qed

lemma py_float_pow_complex:
  assumes "x < 0" "p \<noteq> of_int \<lfloor>p\<rfloor>"
  shows "\<exists>z. py_float_pow x p = Inr (PyComplex z) \<and> Im z \<noteq> 0"
proof -
  have p0: "p \<noteq> 0" using assms(2) by auto
  have "sin (pi * p) \<noteq> 0"
  proof
    assume "sin (pi * p) = 0"
    then obtain i :: int where "pi * p = of_int i * pi"
      using sin_zero_iff_int2 by blast
    then have "p = of_int i" by simp
    then show False using assms(2) by simp
  qed
  moreover have "\<bar>x\<bar> powr p \<noteq> 0" using assms(1) by simp
  ultimately show ?thesis using assms p0
    by (simp add: py_float_pow_def Let_def)
qed

lemma base_bounds:
  assumes "1 \<le> (E::int)" "0 \<le> e" "e \<le> E"
  shows "0 \<le> 1 - real_of_int e / real_of_int E" "1 - real_of_int e / real_of_int E \<le> 1"
  using assms by (simp_all add: field_simps)

lemma base_mono:
  assumes "1 \<le> (E::int)" "e1 \<le> e2"
  shows "1 - real_of_int e2 / real_of_int E \<le> 1 - real_of_int e1 / real_of_int E"
  using assms by (simp add: field_simps)

lemma py_float_pow_value:
  assumes "0 \<le> x" and "0 \<le> p"
  shows "py_float_pow x p = Inr (PyFloat (if p = 0 then 1 else x powr p))"
  using assms by (simp add: py_float_pow_def)

text \<open>
  C3: the decay factor is \<open>(1 - epoch/epochs) ** lr_decay_pow\<close>: for \<open>epochs \<ge> 1\<close> and
  \<open>lr_decay_pow \<ge> 0\<close>, at every integer epoch in \<open>[0, epochs]\<close> it is the float
  \<open>(1 - epoch/epochs)\<close> to the power \<open>lr_decay_pow\<close> (1 when the power is 0). It does not
  increase from an epoch \<open>e1\<close> to a later epoch \<open>e2\<close>; it is 1 at epoch 0, and for a positive
  \<open>lr_decay_pow\<close> it is 0 at the final epoch.
\<close>

theorem lr_fn_decay:
  assumes "1 \<le> epochs self" and "0 \<le> lr_decay_pow self"
    and "0 \<le> e1" and "e1 \<le> e2" and "e2 \<le> epochs self"
  shows "lr_fn self e1 =
           Inr (PyFloat (if lr_decay_pow self = 0 then 1
                         else (1 - of_int e1 / of_int (epochs self)) powr lr_decay_pow self)) \<and>
         lr_fn self e2 =
           Inr (PyFloat (if lr_decay_pow self = 0 then 1
                         else (1 - of_int e2 / of_int (epochs self)) powr lr_decay_pow self)) \<and>
         (\<exists>v1 v2. lr_fn self e1 = Inr (PyFloat v1) \<and> lr_fn self e2 = Inr (PyFloat v2) \<and> v2 \<le> v1) \<and>
         lr_fn self 0 = Inr (PyFloat 1) \<and>
         (0 < lr_decay_pow self \<longrightarrow> lr_fn self (epochs self) = Inr (PyFloat 0))"
proof -
  have ne: "epochs self \<noteq> 0" using assms by simp
  have b2: "0 \<le> 1 - real_of_int e2 / real_of_int (epochs self)"
    using assms by (intro base_bounds) auto
  have b12: "1 - real_of_int e2 / real_of_int (epochs self) \<le>
             1 - real_of_int e1 / real_of_int (epochs self)"
    using assms by (intro base_mono) auto
  from b2 b12 have b1: "0 \<le> 1 - real_of_int e1 / real_of_int (epochs self)" by simp
  have v1: "lr_fn self e1 =
           Inr (PyFloat (if lr_decay_pow self = 0 then 1
                         else (1 - of_int e1 / of_int (epochs self)) powr lr_decay_pow self))"
    using py_float_pow_value [OF b1 assms(2)] ne by (simp add: lr_fn_def)
  have v2: "lr_fn self e2 =
           Inr (PyFloat (if lr_decay_pow self = 0 then 1
                         else (1 - of_int e2 / of_int (epochs self)) powr lr_decay_pow self))"
    using py_float_pow_value [OF b2 assms(2)] ne by (simp add: lr_fn_def)
  have mono: "\<exists>v1 v2. lr_fn self e1 = Inr (PyFloat v1) \<and> lr_fn self e2 = Inr (PyFloat v2) \<and> v2 \<le> v1"
    using py_float_pow_mono [OF b2 b12 assms(2)] ne by (simp add: lr_fn_def)
  have zero: "lr_fn self 0 = Inr (PyFloat 1)"
    using ne by (simp add: lr_fn_def py_float_pow_def)
  have final: "0 < lr_decay_pow self \<longrightarrow> lr_fn self (epochs self) = Inr (PyFloat 0)"
    using ne by (simp add: lr_fn_def py_float_pow_def)
  from v1 v2 mono zero final show ?thesis by (intro conjI)
qed

theorem lr_fn_decay_witness:
  "1 \<le> epochs example_model \<and> 0 \<le> lr_decay_pow example_model \<and>
   lr_fn example_model 10 = Inr (PyFloat ((4 / 5) powr (9 / 10))) \<and>
   lr_fn example_model 20 = Inr (PyFloat ((3 / 5) powr (9 / 10))) \<and>
   (3 / 5) powr (9 / 10) \<le> ((4 / 5) powr (9 / 10) :: real) \<and>
   lr_fn example_model 0 = Inr (PyFloat 1) \<and>
   lr_fn example_model 50 = Inr (PyFloat 0)"
proof -
  have h: "1 \<le> epochs example_model" "0 \<le> lr_decay_pow example_model"
    "(0::int) \<le> 10" "(10::int) \<le> 20" "20 \<le> epochs example_model"
    by (simp_all add: hparams_example_model)
  have p: "0 < lr_decay_pow example_model" by (simp add: hparams_example_model)
  note T = lr_fn_decay [OF h]
  have a: "lr_fn example_model 10 = Inr (PyFloat ((4 / 5) powr (9 / 10)))"
    using T [THEN conjunct1] by (simp add: hparams_example_model)
  have b: "lr_fn example_model 20 = Inr (PyFloat ((3 / 5) powr (9 / 10)))"
    using T [THEN conjunct2, THEN conjunct1] by (simp add: hparams_example_model)
  have c: "(3 / 5) powr (9 / 10) \<le> ((4 / 5) powr (9 / 10) :: real)"
    using T [THEN conjunct2, THEN conjunct2, THEN conjunct1] unfolding a b by simp
  have d: "lr_fn example_model 0 = Inr (PyFloat 1)"
    by (rule T [THEN conjunct2, THEN conjunct2, THEN conjunct2, THEN conjunct1])
  have e: "lr_fn example_model 50 = Inr (PyFloat 0)"
    using T [THEN conjunct2, THEN conjunct2, THEN conjunct2, THEN conjunct2] p
    by (simp add: hparams_example_model(1))
  from h(1,2) a b c d e show ?thesis by (intro conjI)
qed

text \<open>
  C10, as stated, fails when \<open>epochs = 0\<close>: then \<open>epoch = 0\<close> meets the precondition
  \<open>0 \<le> epoch \<le> epochs\<close> and the division raises \<^verbatim>\<open>ZeroDivisionError\<close>.
\<close>

theorem lr_fn_total_counterexample:
  "(0::int) \<le> 0 \<and> 0 \<le> epochs (example_model\<lparr>epochs := 0\<rparr>) \<and>
   0 \<le> lr_decay_pow (example_model\<lparr>epochs := 0\<rparr>) \<and>
   lr_fn (example_model\<lparr>epochs := 0\<rparr>) 0 = Inl ZeroDivisionError"
  by (simp add: lr_fn_def hparams_example_model)

text \<open>
  C10, amended: for \<open>epochs \<ge> 1\<close> and \<open>lr_decay_pow \<ge> 0\<close>, the factor is defined and lies in
  \<open>[0, 1]\<close> at every epoch with \<open>0 \<le> epoch \<le> epochs\<close>; past the last epoch, with an exponent
  that is not an integer, the base is negative and the result is no real number (Python
  returns a complex number with a non-zero imaginary part).
\<close>

theorem lr_fn_range:
  assumes "1 \<le> epochs self" and "0 \<le> lr_decay_pow self"
  shows "(0 \<le> epoch \<and> epoch \<le> epochs self \<longrightarrow>
            (\<exists>v. lr_fn self epoch = Inr (PyFloat v) \<and> 0 \<le> v \<and> v \<le> 1)) \<and>
         (epochs self < epoch \<and> lr_decay_pow self \<noteq> of_int \<lfloor>lr_decay_pow self\<rfloor> \<longrightarrow>
            (\<exists>z. lr_fn self epoch = Inr (PyComplex z) \<and> Im z \<noteq> 0))"
proof -
  have ne: "epochs self \<noteq> 0" using assms by simp
  have a: "\<exists>v. lr_fn self epoch = Inr (PyFloat v) \<and> 0 \<le> v \<and> v \<le> 1"
    if "0 \<le> epoch" "epoch \<le> epochs self"
    using py_float_pow_unit [OF base_bounds [OF assms(1) that] assms(2)] ne
    by (simp add: lr_fn_def)
  have b: "\<exists>z. lr_fn self epoch = Inr (PyComplex z) \<and> Im z \<noteq> 0"
    if "epochs self < epoch" "lr_decay_pow self \<noteq> of_int \<lfloor>lr_decay_pow self\<rfloor>"
  proof -
    have "1 - real_of_int epoch / real_of_int (epochs self) < 0"
      using assms(1) that(1) by (simp add: field_simps)
    from py_float_pow_complex [OF this that(2)] ne show ?thesis
      by (simp add: lr_fn_def)
  qed
  from a b show ?thesis by blast
qed

theorem lr_fn_range_witness:
  "1 \<le> epochs example_model \<and> 0 \<le> lr_decay_pow example_model \<and>
   (\<exists>v. lr_fn example_model 10 = Inr (PyFloat v) \<and> 0 \<le> v \<and> v \<le> 1) \<and>
   (\<exists>z. lr_fn example_model 60 = Inr (PyComplex z) \<and> Im z \<noteq> 0)"
proof -
  have h: "1 \<le> epochs example_model" "0 \<le> lr_decay_pow example_model"
    by (simp_all add: hparams_example_model)
  have a: "0 \<le> (10::int) \<and> 10 \<le> epochs example_model"
    by (simp add: hparams_example_model)
  have b: "epochs example_model < 60 \<and>
           lr_decay_pow example_model \<noteq> of_int \<lfloor>lr_decay_pow example_model\<rfloor>"
    by (simp add: hparams_example_model)
  from lr_fn_range [OF h, of 10] a lr_fn_range [OF h, of 60] b h show ?thesis
    by blast
qed

subsection \<open>Parameter groups\<close>

lemma group_parameters_filter:
  "group_parameters nps (e, w, b) =
     (e @ map snd (filter (\<lambda>(n, p). startswith n ''backbone'') nps),
      w @ map snd (filter (\<lambda>(n, p). \<not> startswith n ''backbone'' \<and> str_contains n ''weight'') nps),
      b @ map snd (filter (\<lambda>(n, p). \<not> startswith n ''backbone'' \<and> \<not> str_contains n ''weight'') nps))"
  by (induction nps "(e, w, b)" arbitrary: e w b rule: group_parameters.induct) auto

lemma mset_three_way:
  "mset (map f (filter P xs)) + mset (map f (filter (\<lambda>x. \<not> P x \<and> Q x) xs)) +
     mset (map f (filter (\<lambda>x. \<not> P x \<and> \<not> Q x) xs)) = mset (map f xs)"
  by (induction xs) auto

lemma disjoint_filters:
  assumes "distinct (map f xs)" and "\<And>x. \<not> (P x \<and> Q x)"
  shows "set (map f (filter P xs)) \<inter> set (map f (filter Q xs)) = {}"
  using assms by (induction xs) auto

text \<open>
  The constructors' exceptions leave \<^verbatim>\<open>configure_optimizers\<close>: a negative momentum or weight
  decay, and \<^verbatim>\<open>epochs = 0\<close>, where the scheduler's first call of \<^verbatim>\<open>lr_fn\<close> divides by zero.
\<close>

lemma configure_optimizers_ValueError:
  assumes "momentum self < 0 \<or> weight_decay self < 0"
  shows "configure_optimizers self = Inl ValueError"
  using assms
  by (auto simp: configure_optimizers_def RMSprop_def Let_def split: prod.splits)

lemma lr_fn_first_call:
  "lr_fn self 0 = (if epochs self = 0 then Inl ZeroDivisionError else Inr (PyFloat 1))"
  by (simp add: lr_fn_def py_float_pow_def)

lemma configure_optimizers_ZeroDivisionError:
  assumes "epochs self = 0" and "0 \<le> momentum self" and "0 \<le> weight_decay self"
    and "distinct (map snd (named_parameters (model self)))"
  shows "configure_optimizers self = Inl ZeroDivisionError"
proof -
  let ?nps = "named_parameters (model self)"
  let ?P = "\<lambda>(n :: string, p :: 'b). startswith n ''backbone''"
  let ?W = "\<lambda>(n :: string, p :: 'b). \<not> startswith n ''backbone'' \<and> str_contains n ''weight''"
  let ?B = "\<lambda>(n :: string, p :: 'b). \<not> startswith n ''backbone'' \<and> \<not> str_contains n ''weight''"
  note d = assms(4)
  have 1: "set (map snd (filter ?W ?nps)) \<inter> set (map snd (filter ?P ?nps)) = {}"
    by (rule disjoint_filters [OF d]) auto
  have 2: "set (map snd (filter ?B ?nps)) \<inter> set (map snd (filter ?P ?nps)) = {}"
    by (rule disjoint_filters [OF d]) auto
  have 3: "set (map snd (filter ?B ?nps)) \<inter> set (map snd (filter ?W ?nps)) = {}"
    by (rule disjoint_filters [OF d]) auto
  from 1 2 3 assms(1,2,3) show ?thesis
    by (simp add: configure_optimizers_def group_parameters_filter RMSprop_def LambdaLR_def
        lr_fn_first_call Let_def Int_Un_distrib)
qed

text \<open>
  C2: \<^verbatim>\<open>configure_optimizers\<close> (for a module on which the two constructors do not raise: at
  least one epoch, momentum and weight decay not negative, and the parameters of
  \<^verbatim>\<open>named_parameters()\<close> distinct, as PyTorch yields them) returns one optimizer with exactly
  three groups: the parameters whose name starts with \<^verbatim>\<open>'backbone'\<close>, at the base learning
  rate; of the others, those whose name contains \<^verbatim>\<open>'weight'\<close>, at ten times the base rate;
  and all the rest, at twenty times the base rate. The groups are pairwise disjoint and
  together hold every parameter exactly once.
\<close>

theorem configure_optimizers_groups:
  assumes "epochs self \<noteq> 0" and "0 \<le> momentum self" and "0 \<le> weight_decay self"
    and "distinct (map snd (named_parameters (model self)))"
  shows "\<exists>enc dw db.
     configure_optimizers (self :: ('x, 'p, 'sd) lit_model) =
       Inr ([\<lparr>param_groups =
                [\<lparr>params = enc, lr = learning_rate self\<rparr>,
                 \<lparr>params = dw, lr = 10 * learning_rate self\<rparr>,
                 \<lparr>params = db, lr = 20 * learning_rate self\<rparr>],
              opt_momentum = momentum self, opt_alpha = 9 / 10,
              opt_weight_decay = weight_decay self\<rparr>],
            [\<lparr>optimizer =
               \<lparr>param_groups =
                  [\<lparr>params = enc, lr = learning_rate self\<rparr>,
                   \<lparr>params = dw, lr = 10 * learning_rate self\<rparr>,
                   \<lparr>params = db, lr = 20 * learning_rate self\<rparr>],
                opt_momentum = momentum self, opt_alpha = 9 / 10,
                opt_weight_decay = weight_decay self\<rparr>,
              lr_lambda = lr_fn self\<rparr>]) \<and>
     enc = map snd (filter (\<lambda>(n, p). startswith n ''backbone'')
                      (named_parameters (model self))) \<and>
     dw = map snd (filter (\<lambda>(n, p). \<not> startswith n ''backbone'' \<and> str_contains n ''weight'')
                     (named_parameters (model self))) \<and>
     db = map snd (filter (\<lambda>(n, p). \<not> startswith n ''backbone'' \<and> \<not> str_contains n ''weight'')
                     (named_parameters (model self))) \<and>
     mset enc + mset dw + mset db = mset (map snd (named_parameters (model self))) \<and>
     set enc \<inter> set dw = {} \<and> set enc \<inter> set db = {} \<and> set dw \<inter> set db = {}"
proof -
  let ?nps = "named_parameters (model self)"
  let ?P = "\<lambda>(n :: string, p :: 'p). startswith n ''backbone''"
  let ?Q = "\<lambda>(n :: string, p :: 'p). str_contains n ''weight''"
  let ?W = "\<lambda>(n :: string, p :: 'p). \<not> startswith n ''backbone'' \<and> str_contains n ''weight''"
  let ?B = "\<lambda>(n :: string, p :: 'p). \<not> startswith n ''backbone'' \<and> \<not> str_contains n ''weight''"
  let ?opt = "\<lparr>param_groups =
                [\<lparr>params = map snd (filter ?P ?nps), lr = learning_rate self\<rparr>,
                 \<lparr>params = map snd (filter ?W ?nps), lr = 10 * learning_rate self\<rparr>,
                 \<lparr>params = map snd (filter ?B ?nps), lr = 20 * learning_rate self\<rparr>],
              opt_momentum = momentum self, opt_alpha = 9 / 10,
              opt_weight_decay = weight_decay self\<rparr>"
  note d = assms(4)
  have W: "?W = (\<lambda>x. \<not> ?P x \<and> ?Q x)" and B: "?B = (\<lambda>x. \<not> ?P x \<and> \<not> ?Q x)"
    by auto
  have pw: "set (map snd (filter ?P ?nps)) \<inter> set (map snd (filter ?W ?nps)) = {}"
    by (rule disjoint_filters [OF d]) auto
  have pb: "set (map snd (filter ?P ?nps)) \<inter> set (map snd (filter ?B ?nps)) = {}"
    by (rule disjoint_filters [OF d]) auto
  have wb: "set (map snd (filter ?W ?nps)) \<inter> set (map snd (filter ?B ?nps)) = {}"
    by (rule disjoint_filters [OF d]) auto
  have wp: "set (map snd (filter ?W ?nps)) \<inter> set (map snd (filter ?P ?nps)) = {}"
    using pw by (simp only: Int_commute)
  have bp: "set (map snd (filter ?B ?nps)) \<inter> set (map snd (filter ?P ?nps)) = {}"
    using pb by (simp only: Int_commute)
  have bw: "set (map snd (filter ?B ?nps)) \<inter> set (map snd (filter ?W ?nps)) = {}"
    using wb by (simp only: Int_commute)
  have run: "configure_optimizers self = Inr ([?opt], [\<lparr>optimizer = ?opt, lr_lambda = lr_fn self\<rparr>])"
    using wp bp bw assms(1,2,3)
    by (simp add: configure_optimizers_def group_parameters_filter RMSprop_def LambdaLR_def
        lr_fn_first_call Let_def Int_Un_distrib mult.commute)
  have ms: "mset (map snd (filter ?P ?nps)) + mset (map snd (filter ?W ?nps)) +
              mset (map snd (filter ?B ?nps)) = mset (map snd ?nps)"
    unfolding W B by (rule mset_three_way)
  from run ms pw pb wb show ?thesis by blast
qed

theorem configure_optimizers_groups_witness:
  "epochs example_model \<noteq> 0 \<and> 0 \<le> momentum example_model \<and>
   0 \<le> weight_decay example_model \<and>
   distinct (map snd (named_parameters (model example_model))) \<and>
   (\<exists>enc dw db.
      map_sum id (map (map params \<circ> param_groups) \<circ> fst) (configure_optimizers example_model) =
        Inr [[enc, dw, db]] \<and>
      enc = [0, 3] \<and> dw = [1] \<and> db = [2] \<and>
      set enc \<inter> set dw = {} \<and> set enc \<inter> set db = {} \<and> set dw \<inter> set db = {})"
proof -
  let ?nps = "named_parameters (model example_model)"
  have h: "epochs example_model \<noteq> 0" "0 \<le> momentum example_model"
    "0 \<le> weight_decay example_model"
    by (simp_all add: hparams_example_model)
  have d: "distinct (map snd ?nps)"
    by (simp add: model_example_model example_net_def)
  from configure_optimizers_groups [OF h d]
  obtain enc dw db where H:
    "configure_optimizers example_model =
       Inr ([\<lparr>param_groups =
                [\<lparr>params = enc, lr = learning_rate example_model\<rparr>,
                 \<lparr>params = dw, lr = 10 * learning_rate example_model\<rparr>,
                 \<lparr>params = db, lr = 20 * learning_rate example_model\<rparr>],
              opt_momentum = momentum example_model, opt_alpha = 9 / 10,
              opt_weight_decay = weight_decay example_model\<rparr>],
            [\<lparr>optimizer =
               \<lparr>param_groups =
                  [\<lparr>params = enc, lr = learning_rate example_model\<rparr>,
                   \<lparr>params = dw, lr = 10 * learning_rate example_model\<rparr>,
                   \<lparr>params = db, lr = 20 * learning_rate example_model\<rparr>],
                opt_momentum = momentum example_model, opt_alpha = 9 / 10,
                opt_weight_decay = weight_decay example_model\<rparr>,
              lr_lambda = lr_fn example_model\<rparr>]) \<and>
     enc = map snd (filter (\<lambda>(n, p). startswith n ''backbone'') ?nps) \<and>
     dw = map snd (filter (\<lambda>(n, p). \<not> startswith n ''backbone'' \<and> str_contains n ''weight'')
                     ?nps) \<and>
     db = map snd (filter (\<lambda>(n, p). \<not> startswith n ''backbone'' \<and> \<not> str_contains n ''weight'')
                     ?nps) \<and>
     mset enc + mset dw + mset db = mset (map snd ?nps) \<and>
     set enc \<inter> set dw = {} \<and> set enc \<inter> set db = {} \<and> set dw \<inter> set db = {}"
    by (elim exE) (rule that)
  note opt = H [THEN conjunct1]
  note enc = H [THEN conjunct2, THEN conjunct1]
  note dw = H [THEN conjunct2, THEN conjunct2, THEN conjunct1]
  note db = H [THEN conjunct2, THEN conjunct2, THEN conjunct2, THEN conjunct1]
  note disj = H [THEN conjunct2, THEN conjunct2, THEN conjunct2, THEN conjunct2, THEN conjunct2]
  have groups:
    "map_sum id (map (map params \<circ> param_groups) \<circ> fst) (configure_optimizers example_model) =
       Inr [[enc, dw, db]]"
    by (simp add: opt)
  have e: "enc = [0, 3]" unfolding enc by (simp add: model_example_model example_net_def)
  have w: "dw = [1]" unfolding dw by (simp add: model_example_model example_net_def)
  have b: "db = [2]" unfolding db by (simp add: model_example_model example_net_def)
  have "map_sum id (map (map params \<circ> param_groups) \<circ> fst) (configure_optimizers example_model) =
          Inr [[enc, dw, db]] \<and>
        enc = [0, 3] \<and> dw = [1] \<and> db = [2] \<and>
        set enc \<inter> set dw = {} \<and> set enc \<inter> set db = {} \<and> set dw \<inter> set db = {}"
    by (intro conjI) (rule groups e w b disj [THEN conjunct1]
      disj [THEN conjunct2, THEN conjunct1] disj [THEN conjunct2, THEN conjunct2])+
  then have "\<exists>enc dw db.
      map_sum id (map (map params \<circ> param_groups) \<circ> fst) (configure_optimizers example_model) =
        Inr [[enc, dw, db]] \<and>
      enc = [0, 3] \<and> dw = [1] \<and> db = [2] \<and>
      set enc \<inter> set dw = {} \<and> set enc \<inter> set db = {} \<and> set dw \<inter> set db = {}"
    by (intro exI)
  with h d show ?thesis by (intro conjI)
qed

subsection \<open>\<^verbatim>\<open>training_step\<close>\<close>

text \<open>
  C1: for a batch whose labels hold a \<^verbatim>\<open>'segmentation'\<close> entry, a network output with an
  \<^verbatim>\<open>'out'\<close> entry and a numeric \<^verbatim>\<open>separation_loss_lambda\<close>, \<^verbatim>\<open>training_step\<close> returns the focal
  loss of the main output plus lambda times the separation loss, which is the water-obstacle
  separation loss of the auxiliary output for method \<^verbatim>\<open>'wasr'\<close> and 0 for method \<^verbatim>\<open>'none'\<close>;
  for \<^verbatim>\<open>'none'\<close> the returned loss is the focal loss alone.
\<close>

theorem training_step_loss:
  assumes "call (model self) features ''out'' = Some out_main"
    and "labels ''segmentation'' = Some seg"
    and "separation_loss_lambda self = Some lam"
  shows "(separation_loss self = ''wasr'' \<longrightarrow>
            (\<forall>out_aux. call (model self) features ''aux'' = Some out_aux \<longrightarrow>
               fst (training_step ext self (features, labels)) =
                 Inr (focal_loss ext out_main seg (focal_loss_scale self) +
                      lam * water_obstacle_separation_loss ext out_aux seg
                              (separation_loss_clipping self) (separation_loss_sky self)))) \<and>
         (separation_loss self = ''none'' \<longrightarrow>
            fst (training_step ext self (features, labels)) =
              Inr (focal_loss ext out_main seg (focal_loss_scale self) + lam * 0) \<and>
            fst (training_step ext self (features, labels)) =
              Inr (focal_loss ext out_main seg (focal_loss_scale self)))"
  using assms by (simp add: training_step_def getitem_def Let_def)

theorem training_step_loss_witness:
  "fst (training_step example_ext example_model ((), [''segmentation'' \<mapsto> example_labels])) =
     Inr (2 + 1 / 100 * 3) \<and>
   fst (training_step example_ext (example_model\<lparr>separation_loss := ''none''\<rparr>)
          ((), [''segmentation'' \<mapsto> example_labels])) = Inr 2"
proof -
  let ?labels = "[''segmentation'' \<mapsto> example_labels]"
  let ?none = "example_model\<lparr>separation_loss := ''none''\<rparr>"
  have o: "call (model example_model) () ''out'' = Some example_labels"
    and a: "call (model example_model) () ''aux'' = Some example_labels"
    by (simp_all add: model_example_model example_net_def)
  have o': "call (model ?none) () ''out'' = Some example_labels"
    by (simp add: model_example_model example_net_def)
  have s: "?labels ''segmentation'' = Some example_labels" by simp
  have l: "separation_loss_lambda example_model = Some (1 / 100)"
    and l': "separation_loss_lambda ?none = Some (1 / 100)"
    by (simp_all add: hparams_example_model)
  have w: "separation_loss example_model = ''wasr''" and n: "separation_loss ?none = ''none''"
    by (simp_all add: hparams_example_model)
  from training_step_loss [where self = example_model and features = "()" and labels = ?labels
      and ext = example_ext, OF o s l] w a
  have "fst (training_step example_ext example_model ((), ?labels)) = Inr (2 + 1 / 100 * 3)"
    by (simp add: example_ext_def)
  moreover from training_step_loss [where self = ?none and features = "()" and labels = ?labels
      and ext = example_ext, OF o' s l'] n
  have "fst (training_step example_ext ?none ((), ?labels)) = Inr 2"
    by (simp add: example_ext_def)
  ultimately show ?thesis by simp
qed

subsection \<open>\<^verbatim>\<open>validation_step\<close>\<close>

text \<open>
  \<open>argmax_list\<close> returns a position of the list, the entry there is maximal, and every
  earlier entry is strictly smaller.
\<close>

lemma argmax_from_inv:
  assumes "length pre = i" "bi < i" "pre ! bi = bv"
    and "\<forall>j<i. pre ! j \<le> bv" and "\<forall>j<bi. pre ! j < bv"
  shows "argmax_from bi bv i xs < length (pre @ xs) \<and>
         (\<forall>j<length (pre @ xs). (pre @ xs) ! j \<le> (pre @ xs) ! argmax_from bi bv i xs) \<and>
         (\<forall>j<argmax_from bi bv i xs. (pre @ xs) ! j < (pre @ xs) ! argmax_from bi bv i xs)"
  using assms
proof (induction xs arbitrary: pre i bi bv)
  case Nil
  then show ?case by simp
next
  case (Cons x xs)
  show ?case
  proof (cases "bv < x")
    case True
    have "argmax_from i x (Suc i) xs < length ((pre @ [x]) @ xs) \<and>
         (\<forall>j<length ((pre @ [x]) @ xs). ((pre @ [x]) @ xs) ! j \<le> ((pre @ [x]) @ xs) ! argmax_from i x (Suc i) xs) \<and>
         (\<forall>j<argmax_from i x (Suc i) xs. ((pre @ [x]) @ xs) ! j < ((pre @ [x]) @ xs) ! argmax_from i x (Suc i) xs)"
    proof (rule Cons.IH)
      show "length (pre @ [x]) = Suc i" using Cons.prems by simp
      show "i < Suc i" by simp
      show "(pre @ [x]) ! i = x" using Cons.prems by (simp add: nth_append)
      show "\<forall>j<Suc i. (pre @ [x]) ! j \<le> x"
        using Cons.prems True by (auto simp: nth_append less_Suc_eq intro: less_imp_le order_trans)
      show "\<forall>j<i. (pre @ [x]) ! j < x"
        using Cons.prems True by (auto simp: nth_append intro: le_less_trans)
    qed
    with True show ?thesis by simp
  next
    case False
    have "argmax_from bi bv (Suc i) xs < length ((pre @ [x]) @ xs) \<and>
         (\<forall>j<length ((pre @ [x]) @ xs). ((pre @ [x]) @ xs) ! j \<le> ((pre @ [x]) @ xs) ! argmax_from bi bv (Suc i) xs) \<and>
         (\<forall>j<argmax_from bi bv (Suc i) xs. ((pre @ [x]) @ xs) ! j < ((pre @ [x]) @ xs) ! argmax_from bi bv (Suc i) xs)"
    proof (rule Cons.IH)
      show "length (pre @ [x]) = Suc i" using Cons.prems by simp
      show "bi < Suc i" using Cons.prems by simp
      show "(pre @ [x]) ! bi = bv" using Cons.prems by (simp add: nth_append)
      show "\<forall>j<Suc i. (pre @ [x]) ! j \<le> bv"
        using Cons.prems False by (auto simp: nth_append less_Suc_eq)
      show "\<forall>j<bi. (pre @ [x]) ! j < bv"
        using Cons.prems by (auto simp: nth_append)
    qed
    with False show ?thesis by simp
  qed
qed

lemma argmax_list_first_max:
  assumes "xs \<noteq> []"
  shows "argmax_list xs < length xs \<and>
         (\<forall>j<length xs. xs ! j \<le> xs ! argmax_list xs) \<and>
         (\<forall>j<argmax_list xs. xs ! j < xs ! argmax_list xs)"
proof -
  from assms obtain x ys where xs: "xs = x # ys" by (cases xs) auto
  have "argmax_from 0 x 1 ys < length ([x] @ ys) \<and>
         (\<forall>j<length ([x] @ ys). ([x] @ ys) ! j \<le> ([x] @ ys) ! argmax_from 0 x 1 ys) \<and>
         (\<forall>j<argmax_from 0 x 1 ys. ([x] @ ys) ! j < ([x] @ ys) ! argmax_from 0 x 1 ys)"
    by (rule argmax_from_inv) auto
  then show ?thesis by (simp add: xs argmax_list_def)
qed

lemma length_channels: "length (channels t b h w) = size1 t"
  by (simp add: channels_def)

lemma argmax_channels_less:
  assumes "size1 t \<noteq> 0"
  shows "argmax_list (channels t b h w) < size1 t"
proof -
  have "channels t b h w \<noteq> []" using assms length_channels [of t b h w] by auto
  from argmax_list_first_max [OF this] show ?thesis by (simp add: length_channels)
qed

text \<open>
  The hard labels in closed form, and the outcome of a validation step whose two
  \<^verbatim>\<open>argmax\<close> calls succeed.
\<close>

lemma hard_labels_ok:
  assumes "size1 seg \<noteq> 0"
  shows "hard_labels seg =
           Inr \<lparr>dim0 = size0 seg, dim1 = size2 seg, dim2 = size3 seg,
                elem = (\<lambda>b h w. if sum_list (channels seg b h w) < 9 / 10 then 4
                                 else int (argmax_list (channels seg b h w)))\<rparr>"
  using assms
  by (auto simp: hard_labels_def tensor_argmax1_def tensor_lt_def tensor_sum1_def tensor_not_def
      tensor_mul_bool_def scalar_mul_bool_def tensor_add_def Let_def fun_eq_iff)

lemma validation_step_run:
  assumes "call (model self) features ''out'' = Some out_main"
    and "labels ''segmentation'' = Some seg"
    and "tensor_argmax1 (resize ext out_main (size2 seg, size3 seg) BILINEAR) = Inr ps"
    and "hard_labels seg = Inr labels_hard"
  shows "validation_step ext self (features, labels) =
           (Inr \<lparr>loss = focal_loss ext out_main seg (focal_loss_scale self), preds = ps\<rparr>,
            self\<lparr>val_accuracy := metric_call (val_accuracy self) ps labels_hard,
                 val_iou_0 := metric_call (val_iou_0 self) ps labels_hard,
                 val_iou_1 := metric_call (val_iou_1 self) ps labels_hard,
                 val_iou_2 := metric_call (val_iou_2 self) ps labels_hard,
                 logged := logged self @
                   [(''val/loss'', LogFloat (focal_loss ext out_main seg (focal_loss_scale self))),
                    (''val/accuracy'', LogMetric (kind (val_accuracy self))),
                    (''val/iou/obstacle'', LogMetric (kind (val_iou_0 self))),
                    (''val/iou/water'', LogMetric (kind (val_iou_1 self))),
                    (''val/iou/sky'', LogMetric (kind (val_iou_2 self)))]\<rparr>)"
  using assms
  by (simp add: validation_step_def getitem_def Let_def self_log_def metric_call_def)

lemma upt_3: "[0..<3] = [0, 1, 2]"
  by (simp add: numeral_eq_Suc upt_rec)

lemma channels_example:
  "channels example_labels b h 0 = [1 / 10, 8 / 10, 1 / 10]"
  "channels example_labels b h (Suc 0) = [2 / 10, 3 / 10, 1 / 10]"
  by (simp_all add: channels_def example_labels_def upt_3)

lemma resize_example:
  "resize example_ext t sz mode = t\<lparr>size2 := fst sz, size3 := snd sz\<rparr>"
  by (simp add: example_ext_def)

text \<open>
  C4: in \<^verbatim>\<open>validation_step\<close> the hard label of a pixel is 4, the ignore class, when the
  pixel's soft-label channel sum is below 0.9, and the channel argmax of the soft labels
  otherwise. The module has three classes (obstacle, water, sky), so its labels have at
  most four channels, and then the hard label is 4 exactly when the channel sum is below
  0.9. The predictions compared against these hard labels are the channel argmax of the
  network logits after bilinear resizing to the label spatial size.
\<close>

theorem validation_step_hard_labels:
  assumes "call (model self) features ''out'' = Some out_main"
    and "labels ''segmentation'' = Some seg"
    and "size1 seg \<noteq> 0"
    and "size1 (resize ext out_main (size2 seg, size3 seg) BILINEAR) \<noteq> 0"
  shows "\<exists>ps lh am.
     seen (val_accuracy (snd (validation_step ext self (features, labels)))) =
       seen (val_accuracy self) @ [(ps, lh)] \<and>
     tensor_argmax1 (resize ext out_main (size2 seg, size3 seg) BILINEAR) = Inr ps \<and>
     tensor_argmax1 seg = Inr am \<and>
     (\<forall>b h w. elem am b h w = int (argmax_list (channels seg b h w))) \<and>
     (\<forall>b h w. elem lh b h w =
        (if elem (tensor_sum1 seg) b h w < 9 / 10 then 4 else elem am b h w)) \<and>
     (size1 seg \<le> 4 \<longrightarrow>
        (\<forall>b h w. elem lh b h w = 4 \<longleftrightarrow> elem (tensor_sum1 seg) b h w < 9 / 10))"
proof -
  let ?logits = "resize ext out_main (size2 seg, size3 seg) BILINEAR"
  let ?ps = "\<lparr>dim0 = size0 ?logits, dim1 = size2 ?logits, dim2 = size3 ?logits,
              elem = (\<lambda>b h w. int (argmax_list (channels ?logits b h w)))\<rparr>"
  let ?am = "\<lparr>dim0 = size0 seg, dim1 = size2 seg, dim2 = size3 seg,
              elem = (\<lambda>b h w. int (argmax_list (channels seg b h w)))\<rparr>"
  let ?lh = "\<lparr>dim0 = size0 seg, dim1 = size2 seg, dim2 = size3 seg,
              elem = (\<lambda>b h w. if sum_list (channels seg b h w) < 9 / 10 then 4
                               else int (argmax_list (channels seg b h w)))\<rparr>"
  have ps: "tensor_argmax1 ?logits = Inr ?ps"
    using assms(4) by (simp add: tensor_argmax1_def)
  have am: "tensor_argmax1 seg = Inr ?am"
    using assms(3) by (simp add: tensor_argmax1_def)
  have lh: "hard_labels seg = Inr ?lh"
    by (rule hard_labels_ok [OF assms(3)])
  have run: "seen (val_accuracy (snd (validation_step ext self (features, labels)))) =
       seen (val_accuracy self) @ [(?ps, ?lh)]"
    by (simp add: validation_step_run [where self = self and features = features and labels = labels, OF assms(1,2) ps lh] metric_call_def)
  have iff: "elem ?lh b h w = 4 \<longleftrightarrow> elem (tensor_sum1 seg) b h w < 9 / 10"
    if "size1 seg \<le> 4" for b h w
    using argmax_channels_less [OF assms(3), of b h w] that
    by (auto simp: tensor_sum1_def)
  have "\<forall>b h w. elem ?lh b h w =
        (if elem (tensor_sum1 seg) b h w < 9 / 10 then 4 else elem ?am b h w)"
    by (simp add: tensor_sum1_def)
  with run ps am iff show ?thesis by (intro exI [of _ ?ps] exI [of _ ?lh] exI [of _ ?am]) simp
qed

theorem validation_step_hard_labels_witness:
  "\<exists>ps lh.
     seen (val_accuracy (snd (validation_step example_ext example_model
       ((), [''segmentation'' \<mapsto> example_labels])))) = [(ps, lh)] \<and>
     elem lh 0 0 0 = 1 \<and> elem lh 0 0 1 = 4 \<and>
     (\<forall>b h w. elem lh b h w = 4 \<longleftrightarrow> elem (tensor_sum1 example_labels) b h w < 9 / 10)"
proof -
  let ?labels = "[''segmentation'' \<mapsto> example_labels]"
  have o: "call (model example_model) () ''out'' = Some example_labels"
    by (simp add: model_example_model example_net_def)
  have s: "?labels ''segmentation'' = Some example_labels" by simp
  have n: "size1 example_labels \<noteq> 0" and le: "size1 example_labels \<le> 4"
    by (simp_all add: example_labels_def)
  have r: "size1 (resize example_ext example_labels
             (size2 example_labels, size3 example_labels) BILINEAR) \<noteq> 0"
    by (simp add: resize_example example_labels_def)
  have e: "seen (val_accuracy example_model) = []"
    by (simp add: example_model_def LitModel_init_def new_metric_def)
  from validation_step_hard_labels [where self = example_model and features = "()"
      and labels = ?labels and ext = example_ext, OF o s n r]
  obtain ps lh am where H:
    "seen (val_accuracy (snd (validation_step example_ext example_model ((), ?labels)))) =
       seen (val_accuracy example_model) @ [(ps, lh)] \<and>
     tensor_argmax1 (resize example_ext example_labels
       (size2 example_labels, size3 example_labels) BILINEAR) = Inr ps \<and>
     tensor_argmax1 example_labels = Inr am \<and>
     (\<forall>b h w. elem am b h w = int (argmax_list (channels example_labels b h w))) \<and>
     (\<forall>b h w. elem lh b h w =
        (if elem (tensor_sum1 example_labels) b h w < 9 / 10 then 4 else elem am b h w)) \<and>
     (size1 example_labels \<le> 4 \<longrightarrow>
        (\<forall>b h w. elem lh b h w = 4 \<longleftrightarrow> elem (tensor_sum1 example_labels) b h w < 9 / 10))"
    by (elim exE) (rule that)
  note sn = H [THEN conjunct1]
  note am = H [THEN conjunct2, THEN conjunct2, THEN conjunct2, THEN conjunct1]
  note lh = H [THEN conjunct2, THEN conjunct2, THEN conjunct2, THEN conjunct2, THEN conjunct1]
  note iff = H [THEN conjunct2, THEN conjunct2, THEN conjunct2, THEN conjunct2, THEN conjunct2]
  from sn have "seen (val_accuracy (snd (validation_step example_ext example_model ((), ?labels)))) =
       [(ps, lh)]" using e by simp
  moreover have "elem lh 0 0 0 = 1"
    using lh am by (simp add: tensor_sum1_def channels_example argmax_list_def)
  moreover have "elem lh 0 0 1 = 4"
    using lh am by (simp add: tensor_sum1_def channels_example argmax_list_def)
  moreover have "\<forall>b h w. elem lh b h w = 4 \<longleftrightarrow> elem (tensor_sum1 example_labels) b h w < 9 / 10"
    using iff le by blast
  ultimately show ?thesis by blast
qed

text \<open>
  C5: a call to \<^verbatim>\<open>validation_step\<close> (on a batch with a \<^verbatim>\<open>'segmentation'\<close> entry and an
  output with an \<^verbatim>\<open>'out'\<close> entry, both with at least one channel) calls each of the four
  validation metrics exactly once, with the pair (predictions, hard labels); the metrics
  are pixel accuracy and the IoU of classes 0, 1 and 2; and the value logged as
  \<^verbatim>\<open>'val/loss'\<close> is the focal loss of the main output, with no separation-loss term.
\<close>

theorem validation_step_updates_metrics:
  assumes "call (model self) features ''out'' = Some out_main"
    and "labels ''segmentation'' = Some seg"
    and "size1 seg \<noteq> 0"
    and "size1 (resize ext out_main (size2 seg, size3 seg) BILINEAR) \<noteq> 0"
  shows "\<exists>ps lh self'.
     validation_step ext self (features, labels) =
       (Inr \<lparr>loss = focal_loss ext out_main seg (focal_loss_scale self), preds = ps\<rparr>, self') \<and>
     tensor_argmax1 (resize ext out_main (size2 seg, size3 seg) BILINEAR) = Inr ps \<and>
     hard_labels seg = Inr lh \<and>
     val_accuracy self' = (val_accuracy self)\<lparr>seen := seen (val_accuracy self) @ [(ps, lh)]\<rparr> \<and>
     val_iou_0 self' = (val_iou_0 self)\<lparr>seen := seen (val_iou_0 self) @ [(ps, lh)]\<rparr> \<and>
     val_iou_1 self' = (val_iou_1 self)\<lparr>seen := seen (val_iou_1 self) @ [(ps, lh)]\<rparr> \<and>
     val_iou_2 self' = (val_iou_2 self)\<lparr>seen := seen (val_iou_2 self) @ [(ps, lh)]\<rparr> \<and>
     logged self' = logged self @
       [(''val/loss'', LogFloat (focal_loss ext out_main seg (focal_loss_scale self))),
        (''val/accuracy'', LogMetric (kind (val_accuracy self))),
        (''val/iou/obstacle'', LogMetric (kind (val_iou_0 self))),
        (''val/iou/water'', LogMetric (kind (val_iou_1 self))),
        (''val/iou/sky'', LogMetric (kind (val_iou_2 self)))] \<and>
     kind (val_accuracy (LitModel_init mdl n args)) = PixelAccuracy n \<and>
     kind (val_iou_0 (LitModel_init mdl n args)) = ClassIoU 0 n \<and>
     kind (val_iou_1 (LitModel_init mdl n args)) = ClassIoU 1 n \<and>
     kind (val_iou_2 (LitModel_init mdl n args)) = ClassIoU 2 n"
proof -
  let ?logits = "resize ext out_main (size2 seg, size3 seg) BILINEAR"
  obtain ps where ps: "tensor_argmax1 ?logits = Inr ps"
    using assms(4) by (simp add: tensor_argmax1_def)
  obtain lh where lh: "hard_labels seg = Inr lh"
    using hard_labels_ok [OF assms(3)] by simp
  show ?thesis
    using ps lh by (simp add: LitModel_init_def new_metric_def validation_step_run [where self = self and features = features and labels = labels, OF assms(1,2) ps lh] metric_call_def)
qed

theorem validation_step_updates_metrics_witness:
  "\<exists>ps lh self'.
     validation_step example_ext example_model ((), [''segmentation'' \<mapsto> example_labels]) =
       (Inr \<lparr>loss = 2, preds = ps\<rparr>, self') \<and>
     val_accuracy self' = \<lparr>kind = PixelAccuracy 3, seen = [(ps, lh)]\<rparr> \<and>
     val_iou_0 self' = \<lparr>kind = ClassIoU 0 3, seen = [(ps, lh)]\<rparr> \<and>
     val_iou_1 self' = \<lparr>kind = ClassIoU 1 3, seen = [(ps, lh)]\<rparr> \<and>
     val_iou_2 self' = \<lparr>kind = ClassIoU 2 3, seen = [(ps, lh)]\<rparr> \<and>
     logged self' =
       [(''val/loss'', LogFloat 2),
        (''val/accuracy'', LogMetric (PixelAccuracy 3)),
        (''val/iou/obstacle'', LogMetric (ClassIoU 0 3)),
        (''val/iou/water'', LogMetric (ClassIoU 1 3)),
        (''val/iou/sky'', LogMetric (ClassIoU 2 3))]"
proof -
  let ?labels = "[''segmentation'' \<mapsto> example_labels]"
  have o: "call (model example_model) () ''out'' = Some example_labels"
    by (simp add: model_example_model example_net_def)
  have s: "?labels ''segmentation'' = Some example_labels" by simp
  have n: "size1 example_labels \<noteq> 0"
    by (simp add: example_labels_def)
  have r: "size1 (resize example_ext example_labels
             (size2 example_labels, size3 example_labels) BILINEAR) \<noteq> 0"
    by (simp add: resize_example example_labels_def)
  have m: "val_accuracy example_model = \<lparr>kind = PixelAccuracy 3, seen = []\<rparr>"
    "val_iou_0 example_model = \<lparr>kind = ClassIoU 0 3, seen = []\<rparr>"
    "val_iou_1 example_model = \<lparr>kind = ClassIoU 1 3, seen = []\<rparr>"
    "val_iou_2 example_model = \<lparr>kind = ClassIoU 2 3, seen = []\<rparr>"
    "logged example_model = []"
    by (simp_all add: example_model_def LitModel_init_def new_metric_def)
  have f: "focal_loss example_ext example_labels example_labels (focal_loss_scale example_model) = 2"
    by (simp add: example_ext_def)
  from validation_step_updates_metrics [where self = example_model and features = "()"
      and labels = ?labels and ext = example_ext and mdl = example_net and n = 3
      and args = default_args, OF o s n r]
  obtain ps lh self' where H:
    "validation_step example_ext example_model ((), ?labels) =
       (Inr \<lparr>loss = 2, preds = ps\<rparr>, self') \<and>
     val_accuracy self' = \<lparr>kind = PixelAccuracy 3, seen = [(ps, lh)]\<rparr> \<and>
     val_iou_0 self' = \<lparr>kind = ClassIoU 0 3, seen = [(ps, lh)]\<rparr> \<and>
     val_iou_1 self' = \<lparr>kind = ClassIoU 1 3, seen = [(ps, lh)]\<rparr> \<and>
     val_iou_2 self' = \<lparr>kind = ClassIoU 2 3, seen = [(ps, lh)]\<rparr> \<and>
     logged self' =
       [(''val/loss'', LogFloat 2),
        (''val/accuracy'', LogMetric (PixelAccuracy 3)),
        (''val/iou/obstacle'', LogMetric (ClassIoU 0 3)),
        (''val/iou/water'', LogMetric (ClassIoU 1 3)),
        (''val/iou/sky'', LogMetric (ClassIoU 2 3))]"
    unfolding m f by (elim exE conjE) simp
  then show ?thesis by (intro exI)
qed

end
